theory Spec2Isabelle
  imports Main "HOL-Library.Sublist" "HOL-Library.Option_ord"
begin

section \<open>JavaScript values\<close>

text \<open>
  The archive is written in JavaScript. A field that may be absent (\<open>undefined\<close> or
  \<open>null\<close>) is an \<open>option\<close>. The code tests fields by truthiness: a string is falsy when
  it is absent or empty, a number when it is absent, zero or NaN. \<open>x || null\<close> therefore
  turns an empty string into \<open>null\<close>. Strings are byte lists (UTF-8).
\<close>

definition truthy :: "string option \<Rightarrow> bool" where
  "truthy s = (case s of None \<Rightarrow> False | Some v \<Rightarrow> v \<noteq> [])"

definition or_null :: "string option \<Rightarrow> string option" where
  "or_null s = (if truthy s then s else None)"

definition or_empty :: "string option \<Rightarrow> string" where
  "or_empty s = (if truthy s then the s else [])"

definition truthy_num :: "int option \<Rightarrow> bool" where
  "truthy_num n = (case n of None \<Rightarrow> False | Some v \<Rightarrow> v \<noteq> 0)"

definition or_null_num :: "int option \<Rightarrow> int option" where
  "or_null_num n = (if truthy_num n then n else None)"

text \<open>Decimal rendering of a number inside a template literal; \<open>None\<close> is NaN.\<close>

definition digit_char :: "int \<Rightarrow> char" where
  "digit_char d = char_of (48 + d)"

function decimal_digits :: "int \<Rightarrow> string" where
  "decimal_digits n =
     (if n < 10 then [digit_char n] else decimal_digits (n div 10) @ [digit_char (n mod 10)])"
  by pat_completeness auto
termination
  by (relation "measure nat") auto

declare decimal_digits.simps [simp del]

definition decimal_int :: "int \<Rightarrow> string" where
  "decimal_int i = (if 0 \<le> i then decimal_digits i else CHR ''-'' # decimal_digits (- i))"

definition string_of_num :: "int option \<Rightarrow> string" where
  "string_of_num n = (case n of None \<Rightarrow> ''NaN'' | Some i \<Rightarrow> decimal_int i)"

subsection \<open>JSON documents\<close>

text \<open>
  A JSON document as \<open>JSON.parse\<close> returns it and \<open>JSON.stringify\<close> writes it; the
  text form in between is not modelled, so a column holding JSON text holds the document.
  Numbers are integers. An object lists its keys in insertion order, each key once.
\<close>

datatype json =
    JNull
  | JBool bool
  | JNum int
  | JStr string
  | JArr "json list"
  | JObj "(string \<times> json) list"

definition js_truthy :: "json option \<Rightarrow> bool" where
  "js_truthy v =
     (case v of
        None \<Rightarrow> False
      | Some JNull \<Rightarrow> False
      | Some (JBool b) \<Rightarrow> b
      | Some (JNum n) \<Rightarrow> n \<noteq> 0
      | Some (JStr s) \<Rightarrow> s \<noteq> []
      | Some (JArr _) \<Rightarrow> True
      | Some (JObj _) \<Rightarrow> True)"

text \<open>Property access \<open>j.k\<close>: \<open>None\<close> is \<open>undefined\<close>.\<close>

definition jget :: "string \<Rightarrow> json \<Rightarrow> json option" where
  "jget k j = (case j of JObj kv \<Rightarrow> map_of kv k | _ \<Rightarrow> None)"

text \<open>\<open>v || 0\<close>.\<close>

definition or_zero :: "json option \<Rightarrow> json" where
  "or_zero v = (if js_truthy v then the v else JNum 0)"

text \<open>A key of an object literal under \<open>JSON.stringify\<close>: an undefined value drops the key.\<close>

definition opt_key :: "string \<Rightarrow> json option \<Rightarrow> (string \<times> json) list" where
  "opt_key k v = (case v of None \<Rightarrow> [] | Some j \<Rightarrow> [(k, j)])"

definition opt_str :: "string \<Rightarrow> string option \<Rightarrow> (string \<times> json) list" where
  "opt_str k v = (case v of None \<Rightarrow> [] | Some s \<Rightarrow> [(k, JStr s)])"

section \<open>The store\<close>

subsection \<open>Messages and edits (archive-db, \<open>initializeSchema\<close>)\<close>

text \<open>
  \<open>message_data\<close> is the object handed to \<open>insertMessage\<close>; \<open>message_row\<close> is a row of
  table \<open>messages\<close>, which adds the row id and the content hash. Columns declared
  \<open>NOT NULL\<close> that every parser of the repository supplies as strings are strings here;
  \<open>timestamp\<close> is \<open>None\<close> when the date did not parse (NaN, stored as NULL).
\<close>

record message_data =
  message_id :: string
  internal_id :: "string option"
  session_key :: string
  session_id :: "string option"
  direction :: string
  sender_id :: "string option"
  sender_name :: "string option"
  recipient_id :: "string option"
  recipient_name :: "string option"
  channel :: string
  device_id :: "string option"
  content_type :: "string option"
  content_text :: "string option"
  content_json :: "json option"
  reply_to_id :: "string option"
  thread_id :: "string option"
  timestamp :: "int option"
  edited_at :: "int option"
  deleted_at :: "int option"
  created_at :: "int option"

record message_row = message_data +
  id' :: nat
  content_hash :: "string option"

record edit_row =
  edit_id :: nat
  edit_message_id :: string
  previous_content :: string
  edit_edited_at :: int

datatype db_error =
    CONSTRAINT_UNIQUE
  | CONSTRAINT_NOTNULL
  | CONSTRAINT_CHECK
  | CONSTRAINT_FOREIGNKEY

subsection \<open>Events and their satellites\<close>

text \<open>
  \<open>event_core\<close> holds the columns of table \<open>events\<close> that the parser fills; \<open>event\<close> is
  the parser's output object, which adds the fields \<open>_thinking_content\<close>,
  \<open>_thinking_signature\<close>, \<open>_content_size\<close> and \<open>_usage\<close> (prefix \<open>p\<close> here);
  \<open>event_row\<close> is a stored row. Fields that share a name with a message field carry the
  prefix \<open>ev_\<close>. The derived column \<open>content_size\<close> (the byte length of the JSON text)
  is left out with the text form.
\<close>

record event_core =
  event_id :: string
  parent_event_id :: "string option"
  ev_session_id :: "string option"
  event_type :: string
  event_subtype :: "string option"
  ev_timestamp :: "int option"
  ev_content_json :: json
  role :: "string option"
  tool_name :: "string option"
  model_provider :: "string option"
  model_id :: "string option"
  is_error :: bool

record event = event_core +
  p_thinking_content :: "string option"
  p_thinking_signature :: "string option"
  p_content_size :: "nat option"
  p_usage :: "json option"

record event_row = event_core +
  ev_id :: nat
  ev_session_key :: string
  ev_created_at :: int

record thinking_row =
  tb_event_id :: string
  tb_thinking_content :: string
  tb_thinking_signature :: "string option"
  tb_content_size :: "nat option"
  tb_created_at :: int

record usage_row =
  us_event_id :: string
  us_columns :: json
  us_model_provider :: "string option"
  us_model_id :: "string option"
  us_timestamp :: "int option"

subsection \<open>The database\<close>

text \<open>
  The tables that the modelled operations read or write, the key/value table
  \<open>archive_state\<close> (rows of key, value and \<open>updated_at\<close>) and the connection's
  \<open>foreign_keys\<close> pragma, which the constructor switches on.
\<close>

record store =
  messages :: "message_row list"
  edits :: "edit_row list"
  events :: "event_row list"
  thinking_blocks :: "thinking_row list"
  usage_stats :: "usage_row list"
  archive_state :: "(string \<times> string \<times> int) list"
  foreign_keys :: bool

definition empty_store :: store where
  "empty_store =
     \<lparr>messages = [], edits = [], events = [], thinking_blocks = [], usage_stats = [],
      archive_state = [], foreign_keys = True\<rparr>"

text \<open>The row id that an \<open>INTEGER PRIMARY KEY\<close> insert receives: one above the largest.\<close>

definition next_id :: "nat list \<Rightarrow> nat" where
  "next_id ids = Suc (fold max ids 0)"

section \<open>Message operations (archive-db)\<close>

subsection \<open>\<open>hashMessage\<close> and \<open>isDuplicate\<close>\<close>

text \<open>
  \<open>H\<close> stands for the hex-encoded SHA-256 digest of the \<open>crypto\<close> library, which the
  repository takes from the platform.
\<close>

definition hashMessage :: "(string \<Rightarrow> string) \<Rightarrow> 'a message_data_scheme \<Rightarrow> string" where
  "hashMessage H messageData =
     H (or_empty (sender_id messageData) @ ''|'' @ string_of_num (timestamp messageData)
        @ ''|'' @ or_empty (content_text messageData))"

text \<open>\<open>ABS(timestamp - ?) < 1000\<close>; a NULL operand makes the comparison fail.\<close>

definition abs_lt_1000 :: "int option \<Rightarrow> int option \<Rightarrow> bool" where
  "abs_lt_1000 a b = (case (a, b) of (Some x, Some y) \<Rightarrow> \<bar>x - y\<bar> < 1000 | _ \<Rightarrow> False)"

definition isDuplicate :: "(string \<Rightarrow> string) \<Rightarrow> store \<Rightarrow> 'a message_data_scheme \<Rightarrow> bool" where
  "isDuplicate H S messageData =
     (if list_ex (\<lambda>r. message_id r = message_id messageData) (messages S) then True
      else if list_ex (\<lambda>r. content_hash r = Some (hashMessage H messageData)) (messages S) then True
      else if truthy (sender_id messageData) \<and> truthy (content_text messageData)
              \<and> list_ex (\<lambda>r. sender_id r = sender_id messageData
                              \<and> abs_lt_1000 (timestamp r) (timestamp messageData)
                              \<and> content_text r = content_text messageData) (messages S)
           then True
      else False)"

subsection \<open>\<open>insertMessage\<close> and \<open>insertBatch\<close>\<close>

text \<open>
  The constraints of table \<open>messages\<close> that an insert can violate: \<open>timestamp NOT NULL\<close>,
  the \<open>CHECK\<close> on \<open>direction\<close>, \<open>message_id UNIQUE\<close>, and the foreign key of
  \<open>reply_to_id\<close> (a row may refer to itself) while the pragma is on.
\<close>

definition messages_constraint :: "store \<Rightarrow> message_row \<Rightarrow> db_error option" where
  "messages_constraint S r =
     (if timestamp r = None then Some CONSTRAINT_NOTNULL
      else if direction r \<noteq> ''inbound'' \<and> direction r \<noteq> ''outbound'' then Some CONSTRAINT_CHECK
      else if list_ex (\<lambda>q. message_id q = message_id r) (messages S) then Some CONSTRAINT_UNIQUE
      else if foreign_keys S \<and> reply_to_id r \<noteq> None \<and> reply_to_id r \<noteq> Some (message_id r)
              \<and> \<not> list_ex (\<lambda>q. Some (message_id q) = reply_to_id r) (messages S)
           then Some CONSTRAINT_FOREIGNKEY
      else None)"

definition message_record :: "(string \<Rightarrow> string) \<Rightarrow> store \<Rightarrow> message_data \<Rightarrow> int \<Rightarrow> message_row" where
  "message_record H S messageData now =
     \<lparr>message_id = message_id messageData,
      internal_id = or_null (internal_id messageData),
      session_key = session_key messageData,
      session_id = or_null (session_id messageData),
      direction = direction messageData,
      sender_id = or_null (sender_id messageData),
      sender_name = or_null (sender_name messageData),
      recipient_id = or_null (recipient_id messageData),
      recipient_name = or_null (recipient_name messageData),
      channel = channel messageData,
      device_id = or_null (device_id messageData),
      content_type = (if truthy (content_type messageData) then content_type messageData else Some ''text''),
      content_text = or_null (content_text messageData),
      content_json = content_json messageData,
      reply_to_id = or_null (reply_to_id messageData),
      thread_id = or_null (thread_id messageData),
      timestamp = timestamp messageData,
      edited_at = or_null_num (edited_at messageData),
      deleted_at = or_null_num (deleted_at messageData),
      created_at = (if truthy_num (created_at messageData) then created_at messageData else Some now),
      id' = next_id (map id' (messages S)),
      content_hash = Some (hashMessage H messageData)\<rparr>"

text \<open>
  The result is the thrown database error, or the returned row id (\<open>None\<close> is \<open>null\<close>:
  the message was skipped) with the store afterwards. \<open>now\<close> is \<open>Date.now()\<close>.
\<close>

definition insertMessage ::
  "(string \<Rightarrow> string) \<Rightarrow> store \<Rightarrow> message_data \<Rightarrow> bool \<Rightarrow> int \<Rightarrow> db_error + (nat option \<times> store)" where
  "insertMessage H S messageData skipIfExists now =
     (if skipIfExists \<and> isDuplicate H S messageData then Inr (None, S)
      else let record = message_record H S messageData now in
        case messages_constraint S record of
          Some err \<Rightarrow> Inl err
        | None \<Rightarrow> Inr (Some (id' record), S\<lparr>messages := messages S @ [record]\<rparr>))"

text \<open>
  \<open>insertBatch\<close> runs in one transaction: an error thrown by a row rolls the whole
  batch back and leaves the function. The counters are \<open>(inserted, skipped)\<close>.
\<close>

fun insertBatch_loop ::
  "(string \<Rightarrow> string) \<Rightarrow> store \<Rightarrow> message_data list \<Rightarrow> int \<Rightarrow> nat \<times> nat
     \<Rightarrow> db_error + ((nat \<times> nat) \<times> store)" where
  "insertBatch_loop H S [] now (inserted, skipped) = Inr ((inserted, skipped), S)"
| "insertBatch_loop H S (msg # msgs) now (inserted, skipped) =
     (case insertMessage H S msg True now of
        Inl err \<Rightarrow> Inl err
      | Inr (Some rowId, S') \<Rightarrow> insertBatch_loop H S' msgs now (inserted + 1, skipped)
      | Inr (None, S') \<Rightarrow> insertBatch_loop H S' msgs now (inserted, skipped + 1))"

definition insertBatch ::
  "(string \<Rightarrow> string) \<Rightarrow> store \<Rightarrow> message_data list \<Rightarrow> int \<Rightarrow> db_error + ((nat \<times> nat) \<times> store)" where
  "insertBatch H S msgs now = insertBatch_loop H S msgs now (0, 0)"

subsection \<open>\<open>updateMessage\<close> and \<open>softDeleteMessage\<close>\<close>

text \<open>
  \<open>edits.previous_content\<close> is \<open>NOT NULL\<close>: recording the edit of a message whose
  \<open>content_text\<close> is NULL throws, before the message is touched.
\<close>

definition updateMessage :: "store \<Rightarrow> string \<Rightarrow> string \<Rightarrow> int \<Rightarrow> db_error + store" where
  "updateMessage S messageId newContent editTimestamp =
     (case find (\<lambda>r. message_id r = messageId) (messages S) of
        None \<Rightarrow> Inr S
      | Some current \<Rightarrow>
          (case content_text current of
             None \<Rightarrow> Inl CONSTRAINT_NOTNULL
           | Some previous \<Rightarrow>
               Inr (S\<lparr>edits := edits S @
                          [\<lparr>edit_id = next_id (map edit_id (edits S)), edit_message_id = messageId,
                            previous_content = previous, edit_edited_at = editTimestamp\<rparr>],
                        messages := map (\<lambda>r. if message_id r = messageId
                                               then r\<lparr>content_text := Some newContent,
                                                      edited_at := Some editTimestamp\<rparr>
                                               else r) (messages S)\<rparr>)))"


subsection \<open>\<open>queryMessages\<close>\<close>





section \<open>The event-log parser (event-parser)\<close>

subsection \<open>Source records\<close>

text \<open>
  A block of \<open>msg.content\<close>, by its \<open>type\<close>: \<open>text\<close>; \<open>toolCall\<close> and \<open>toolUse\<close> with
  \<open>id\<close>, \<open>name\<close>, \<open>arguments\<close> and \<open>input\<close>; \<open>thinking\<close> with \<open>thinking\<close> and
  \<open>thinkingSignature\<close>; any other type.
\<close>

datatype content_block =
    TextBlock string
  | ToolCall string string "json option" "json option"
  | ToolUse string string "json option" "json option"
  | Thinking "string option" "string option"
  | OtherBlock string

text \<open>\<open>msg.content\<close> is a plain string or an array of blocks.\<close>

datatype message_content =
    ContentText string
  | ContentBlocks "content_block list"

text \<open>
  The embedded \<open>message\<close> object. \<open>msg_extra\<close> holds its further keys (the session files
  carry, among others, the message's own \<open>timestamp\<close>), which \<open>JSON.stringify(msg)\<close>
  writes with the rest.
\<close>

record message =
  msg_role :: "string option"
  msg_content :: "message_content option"
  msg_provider :: "string option"
  msg_model :: "string option"
  msg_usage :: "json option"
  msg_toolName :: "string option"
  msg_isError :: "bool option"
  msg_extra :: "(string \<times> json) list"

text \<open>
  One parsed line. \<open>raw_timestamp\<close> is \<open>new Date(raw.timestamp).getTime()\<close>: \<open>None\<close> is
  NaN, the value for an absent or unreadable timestamp.
\<close>

record raw_event =
  raw_type :: string
  raw_id :: string
  raw_parentId :: "string option"
  raw_timestamp :: "int option"
  raw_version :: "json option"
  raw_cwd :: "json option"
  raw_provider :: "string option"
  raw_modelId :: "string option"
  raw_thinkingLevel :: "json option"
  raw_customType :: "string option"
  raw_data :: "json option"
  raw_message :: "message option"

text \<open>
  A line of the file: blank after trimming, text on which parsing throws (not JSON, or
  JSON that is not an object), or a record.
\<close>

datatype line = Blank | Malformed | Record raw_event

subsection \<open>\<open>JSON.stringify\<close> of the message\<close>

definition block_json :: "content_block \<Rightarrow> json" where
  "block_json b =
     (case b of
        TextBlock t \<Rightarrow> JObj [(''type'', JStr ''text''), (''text'', JStr t)]
      | ToolCall i n a inp \<Rightarrow>
          JObj ([(''type'', JStr ''toolCall''), (''id'', JStr i), (''name'', JStr n)]
                @ opt_key ''arguments'' a @ opt_key ''input'' inp)
      | ToolUse i n a inp \<Rightarrow>
          JObj ([(''type'', JStr ''toolUse''), (''id'', JStr i), (''name'', JStr n)]
                @ opt_key ''arguments'' a @ opt_key ''input'' inp)
      | Thinking t s \<Rightarrow>
          JObj ([(''type'', JStr ''thinking'')] @ opt_str ''thinking'' t
                @ opt_str ''thinkingSignature'' s)
      | OtherBlock ty \<Rightarrow> JObj [(''type'', JStr ty)])"

definition content_json_of :: "message_content \<Rightarrow> json" where
  "content_json_of c =
     (case c of ContentText t \<Rightarrow> JStr t | ContentBlocks bs \<Rightarrow> JArr (map block_json bs))"

definition message_json :: "message \<Rightarrow> json" where
  "message_json msg =
     JObj (opt_str ''role'' (msg_role msg)
           @ opt_key ''content'' (map_option content_json_of (msg_content msg))
           @ opt_str ''provider'' (msg_provider msg)
           @ opt_str ''model'' (msg_model msg)
           @ opt_key ''usage'' (msg_usage msg)
           @ opt_str ''toolName'' (msg_toolName msg)
           @ opt_key ''isError'' (map_option JBool (msg_isError msg))
           @ msg_extra msg)"

subsection \<open>One event per record\<close>

definition parseSessionEvent :: "raw_event \<Rightarrow> event" where
  "parseSessionEvent raw =
     \<lparr>event_id = raw_id raw,
      parent_event_id = None,
      ev_session_id = Some (raw_id raw),
      event_type = ''session'',
      event_subtype = None,
      ev_timestamp = raw_timestamp raw,
      ev_content_json = JObj (opt_key ''version'' (raw_version raw) @ opt_key ''cwd'' (raw_cwd raw)),
      role = None, tool_name = None, model_provider = None, model_id = None,
      is_error = False,
      p_thinking_content = None, p_thinking_signature = None, p_content_size = None,
      p_usage = None\<rparr>"

definition parseModelChangeEvent :: "raw_event \<Rightarrow> event" where
  "parseModelChangeEvent raw =
     \<lparr>event_id = raw_id raw,
      parent_event_id = or_null (raw_parentId raw),
      ev_session_id = None,
      event_type = ''model_change'',
      event_subtype = None,
      ev_timestamp = raw_timestamp raw,
      ev_content_json = JObj (opt_str ''provider'' (raw_provider raw)
                              @ opt_str ''modelId'' (raw_modelId raw)),
      role = None, tool_name = None,
      model_provider = raw_provider raw, model_id = raw_modelId raw,
      is_error = False,
      p_thinking_content = None, p_thinking_signature = None, p_content_size = None,
      p_usage = None\<rparr>"

definition parseThinkingLevelEvent :: "raw_event \<Rightarrow> event" where
  "parseThinkingLevelEvent raw =
     \<lparr>event_id = raw_id raw,
      parent_event_id = or_null (raw_parentId raw),
      ev_session_id = None,
      event_type = ''thinking_level_change'',
      event_subtype = None,
      ev_timestamp = raw_timestamp raw,
      ev_content_json = JObj (opt_key ''thinkingLevel'' (raw_thinkingLevel raw)),
      role = None, tool_name = None, model_provider = None, model_id = None,
      is_error = False,
      p_thinking_content = None, p_thinking_signature = None, p_content_size = None,
      p_usage = None\<rparr>"

definition parseCustomEvent :: "raw_event \<Rightarrow> event" where
  "parseCustomEvent raw =
     \<lparr>event_id = raw_id raw,
      parent_event_id = or_null (raw_parentId raw),
      ev_session_id = None,
      event_type = ''custom'',
      event_subtype = or_null (raw_customType raw),
      ev_timestamp = raw_timestamp raw,
      ev_content_json = JObj (opt_str ''customType'' (raw_customType raw)
                              @ opt_key ''data'' (raw_data raw)),
      role = None, tool_name = None, model_provider = None, model_id = None,
      is_error = False,
      p_thinking_content = None, p_thinking_signature = None, p_content_size = None,
      p_usage = None\<rparr>"

subsection \<open>\<open>parseMessageEvent\<close>: the fan-out\<close>

definition main_event :: "raw_event \<Rightarrow> message \<Rightarrow> event" where
  "main_event raw msg =
     (let isToolResult = (msg_role msg = Some ''toolResult'') in
      \<lparr>event_id = raw_id raw,
       parent_event_id = or_null (raw_parentId raw),
       ev_session_id = None,
       event_type = (if isToolResult then ''tool_result'' else ''message''),
       event_subtype = None,
       ev_timestamp = raw_timestamp raw,
       ev_content_json = message_json msg,
       role = msg_role msg,
       tool_name = (if isToolResult then msg_toolName msg else None),
       model_provider = or_null (msg_provider msg),
       model_id = or_null (msg_model msg),
       is_error = (if isToolResult then msg_isError msg = Some True else False),
       p_thinking_content = None, p_thinking_signature = None, p_content_size = None,
       p_usage = None\<rparr>)"

definition tool_call_event :: "raw_event \<Rightarrow> string \<Rightarrow> string \<Rightarrow> json option \<Rightarrow> json option \<Rightarrow> event" where
  "tool_call_event raw block_id block_name arguments input =
     \<lparr>event_id = raw_id raw @ ''_tool_'' @ block_id,
      parent_event_id = Some (raw_id raw),
      ev_session_id = None,
      event_type = ''tool_call'',
      event_subtype = None,
      ev_timestamp = raw_timestamp raw,
      ev_content_json = JObj ([(''id'', JStr block_id), (''name'', JStr block_name)]
                              @ opt_key ''arguments'' (if js_truthy arguments then arguments else input)),
      role = None, tool_name = Some block_name, model_provider = None, model_id = None,
      is_error = False,
      p_thinking_content = None, p_thinking_signature = None, p_content_size = None,
      p_usage = None\<rparr>"

definition thinking_event :: "raw_event \<Rightarrow> string option \<Rightarrow> string option \<Rightarrow> event" where
  "thinking_event raw thinking thinkingSignature =
     (let thinkingContent = or_empty thinking; thinkingSize = length thinkingContent in
      \<lparr>event_id = raw_id raw @ ''_thinking'',
       parent_event_id = Some (raw_id raw),
       ev_session_id = None,
       event_type = ''thinking_block'',
       event_subtype = None,
       ev_timestamp = raw_timestamp raw,
       ev_content_json = JObj [(''type'', JStr ''thinking''),
                               (''has_signature'', JBool (truthy thinkingSignature)),
                               (''size_bytes'', JNum (int thinkingSize))],
       role = None, tool_name = None, model_provider = None, model_id = None,
       is_error = False,
       p_thinking_content = Some thinkingContent,
       p_thinking_signature = or_null thinkingSignature,
       p_content_size = Some thinkingSize,
       p_usage = None\<rparr>)"

text \<open>The \<open>_usage\<close> object: the ten counters, each \<open>|| 0\<close>; \<open>cost\<close> is \<open>usage.cost || {}\<close>.\<close>

definition usage_fields :: "json \<Rightarrow> json" where
  "usage_fields usage' =
     (let cost = (if js_truthy (jget ''cost'' usage') then the (jget ''cost'' usage') else JObj []) in
      JObj [(''input_tokens'', or_zero (jget ''input'' usage')),
            (''output_tokens'', or_zero (jget ''output'' usage')),
            (''cache_read_tokens'', or_zero (jget ''cacheRead'' usage')),
            (''cache_write_tokens'', or_zero (jget ''cacheWrite'' usage')),
            (''total_tokens'', or_zero (jget ''totalTokens'' usage')),
            (''input_cost'', or_zero (jget ''input'' cost)),
            (''output_cost'', or_zero (jget ''output'' cost)),
            (''cache_read_cost'', or_zero (jget ''cacheRead'' cost)),
            (''cache_write_cost'', or_zero (jget ''cacheWrite'' cost)),
            (''total_cost'', or_zero (jget ''total'' cost))])"

definition usage_event :: "raw_event \<Rightarrow> message \<Rightarrow> json \<Rightarrow> event" where
  "usage_event raw msg usage' =
     \<lparr>event_id = raw_id raw @ ''_usage'',
      parent_event_id = Some (raw_id raw),
      ev_session_id = None,
      event_type = ''usage_stats'',
      event_subtype = None,
      ev_timestamp = raw_timestamp raw,
      ev_content_json = usage',
      role = None, tool_name = None,
      model_provider = or_null (msg_provider msg), model_id = or_null (msg_model msg),
      is_error = False,
      p_thinking_content = None, p_thinking_signature = None, p_content_size = None,
      p_usage = Some (usage_fields usage')\<rparr>"

text \<open>The events of one block, in the order of the two tests of the loop body.\<close>

definition block_events :: "raw_event \<Rightarrow> content_block \<Rightarrow> event list" where
  "block_events raw block =
     (case block of
        ToolCall i n a inp \<Rightarrow> [tool_call_event raw i n a inp]
      | ToolUse i n a inp \<Rightarrow> [tool_call_event raw i n a inp]
      | Thinking t s \<Rightarrow> [thinking_event raw t s]
      | _ \<Rightarrow> [])"

text \<open>
  \<open>msg.content\<close> passes the test when it is an array or a non-empty string; iterating a
  string visits characters, which have no \<open>type\<close>.
\<close>

definition content_blocks :: "message \<Rightarrow> content_block list" where
  "content_blocks msg =
     (case msg_content msg of Some (ContentBlocks bs) \<Rightarrow> bs | _ \<Rightarrow> [])"

text \<open>
  The events that the two loops after the main event add: the tool calls and thinking
  blocks of an assistant message in block order, then its usage.
\<close>

definition synthetic_events :: "raw_event \<Rightarrow> message \<Rightarrow> event list" where
  "synthetic_events raw msg =
     (if msg_role msg = Some ''assistant''
      then concat (map (block_events raw) (content_blocks msg)) else [])
     @ (if msg_role msg = Some ''assistant'' \<and> js_truthy (msg_usage msg)
        then [usage_event raw msg (the (msg_usage msg))] else [])"

text \<open>\<open>None\<close>: the record has no \<open>message\<close>, and reading \<open>msg.role\<close> throws.\<close>

definition parseMessageEvent :: "raw_event \<Rightarrow> event list option" where
  "parseMessageEvent raw =
     (case raw_message raw of
        None \<Rightarrow> None
      | Some msg \<Rightarrow> Some (main_event raw msg # synthetic_events raw msg))"

definition parseEvent :: "raw_event \<Rightarrow> event list option" where
  "parseEvent rawEvent =
     (if raw_type rawEvent = ''session'' then Some [parseSessionEvent rawEvent]
      else if raw_type rawEvent = ''model_change'' then Some [parseModelChangeEvent rawEvent]
      else if raw_type rawEvent = ''thinking_level_change'' then Some [parseThinkingLevelEvent rawEvent]
      else if raw_type rawEvent = ''custom'' then Some [parseCustomEvent rawEvent]
      else if raw_type rawEvent = ''message'' then parseMessageEvent rawEvent
      else Some [])"

subsection \<open>\<open>parseEvents\<close>: the file\<close>

text \<open>\<open>a <= b\<close> on numbers: false as soon as one side is NaN.\<close>

definition js_le :: "int option \<Rightarrow> int option \<Rightarrow> bool" where
  "js_le a b = (case (a, b) of (Some x, Some y) \<Rightarrow> x \<le> y | _ \<Rightarrow> False)"

fun parse_lines :: "line list \<Rightarrow> int option \<Rightarrow> event list" where
  "parse_lines [] sinceTimestamp = []"
| "parse_lines (Blank # ls) sinceTimestamp = parse_lines ls sinceTimestamp"
| "parse_lines (Malformed # ls) sinceTimestamp = parse_lines ls sinceTimestamp"
| "parse_lines (Record rawEvent # ls) sinceTimestamp =
     (if js_le (raw_timestamp rawEvent) sinceTimestamp then parse_lines ls sinceTimestamp
      else case parseEvent rawEvent of
             None \<Rightarrow> parse_lines ls sinceTimestamp
           | Some parsedEvents \<Rightarrow> parsedEvents @ parse_lines ls sinceTimestamp)"

datatype parse_error = Session_file_not_found

text \<open>The file system gives the lines of the file, or nothing when it does not exist.\<close>

definition parseEvents :: "line list option \<Rightarrow> int option \<Rightarrow> parse_error + event list" where
  "parseEvents sessionFile sinceTimestamp =
     (case sessionFile of
        None \<Rightarrow> Inl Session_file_not_found
      | Some ls \<Rightarrow> Inr (parse_lines ls sinceTimestamp))"

section \<open>Event operations (archive-db)\<close>

subsection \<open>\<open>insertEvent\<close> and the satellite tables\<close>

text \<open>
  The schema of table \<open>events\<close> is not part of the sources at hand. The troubleshooting
  guide of the repository quotes the constraints \<open>event_id TEXT UNIQUE NOT NULL\<close>,
  \<open>session_id TEXT NOT NULL\<close> and
  \<open>FOREIGN KEY (parent_event_id) REFERENCES events(event_id)\<close>; these are the ones
  modelled. A row may name itself as parent. The satellite tables are unique in
  \<open>event_id\<close>, the one conflict that their insert functions catch.
\<close>

definition event_exists :: "store \<Rightarrow> string \<Rightarrow> bool" where
  "event_exists S eid = list_ex (\<lambda>r. event_id r = eid) (events S)"

definition events_constraint :: "store \<Rightarrow> event_row \<Rightarrow> db_error option" where
  "events_constraint S r =
     (if ev_session_id r = None then Some CONSTRAINT_NOTNULL
      else if event_exists S (event_id r) then Some CONSTRAINT_UNIQUE
      else if foreign_keys S \<and> parent_event_id r \<noteq> None
              \<and> parent_event_id r \<noteq> Some (event_id r)
              \<and> \<not> event_exists S (the (parent_event_id r))
           then Some CONSTRAINT_FOREIGNKEY
      else None)"

definition insertThinkingBlock ::
  "store \<Rightarrow> string \<Rightarrow> string \<Rightarrow> string option \<Rightarrow> nat option \<Rightarrow> int \<Rightarrow> store" where
  "insertThinkingBlock S eventId content' signature size' now =
     (if list_ex (\<lambda>t. tb_event_id t = eventId) (thinking_blocks S) then S
      else S\<lparr>thinking_blocks := thinking_blocks S @
                [\<lparr>tb_event_id = eventId, tb_thinking_content = content',
                  tb_thinking_signature = or_null signature, tb_content_size = size',
                  tb_created_at = now\<rparr>]\<rparr>)"

definition usage_columns :: "json \<Rightarrow> json" where
  "usage_columns usage' =
     JObj (map (\<lambda>k. (k, or_zero (jget k usage')))
             [''input_tokens'', ''output_tokens'', ''cache_read_tokens'', ''cache_write_tokens'',
              ''total_tokens'', ''input_cost'', ''output_cost'', ''cache_read_cost'',
              ''cache_write_cost'', ''total_cost''])"

definition insertUsageStats ::
  "store \<Rightarrow> string \<Rightarrow> json \<Rightarrow> string option \<Rightarrow> string option \<Rightarrow> int option \<Rightarrow> store" where
  "insertUsageStats S eventId usage' provider modelId timestamp' =
     (if list_ex (\<lambda>u. us_event_id u = eventId) (usage_stats S) then S
      else S\<lparr>usage_stats := usage_stats S @
                [\<lparr>us_event_id = eventId, us_columns = usage_columns usage',
                  us_model_provider = or_null provider, us_model_id = or_null modelId,
                  us_timestamp = timestamp'\<rparr>]\<rparr>)"

text \<open>The session event takes its own id as session id when it has none.\<close>

definition fill_session_event :: "event \<Rightarrow> event" where
  "fill_session_event eventData =
     (if \<not> truthy (ev_session_id eventData) \<and> event_type eventData = ''session''
      then eventData\<lparr>ev_session_id := Some (event_id eventData)\<rparr> else eventData)"

definition event_record :: "store \<Rightarrow> event \<Rightarrow> string \<Rightarrow> int \<Rightarrow> event_row" where
  "event_record S eventData sessionKey' now =
     \<lparr>event_id = event_id eventData,
      parent_event_id = or_null (parent_event_id eventData),
      ev_session_id = or_null (ev_session_id eventData),
      event_type = event_type eventData,
      event_subtype = or_null (event_subtype eventData),
      ev_timestamp = ev_timestamp eventData,
      ev_content_json = ev_content_json eventData,
      role = or_null (role eventData),
      tool_name = or_null (tool_name eventData),
      model_provider = or_null (model_provider eventData),
      model_id = or_null (model_id eventData),
      is_error = is_error eventData,
      ev_id = next_id (map ev_id (events S)),
      ev_session_key = sessionKey',
      ev_created_at = now\<rparr>"

definition insert_satellites :: "store \<Rightarrow> event \<Rightarrow> int \<Rightarrow> store" where
  "insert_satellites S eventData now =
     (let S1 = (if event_type eventData = ''thinking_block'' \<and> truthy (p_thinking_content eventData)
                then insertThinkingBlock S (event_id eventData) (the (p_thinking_content eventData))
                       (p_thinking_signature eventData) (p_content_size eventData) now
                else S)
      in if event_type eventData = ''usage_stats'' \<and> js_truthy (p_usage eventData)
         then insertUsageStats S1 (event_id eventData) (the (p_usage eventData))
                (model_provider eventData) (model_id eventData) (ev_timestamp eventData)
         else S1)"

text \<open>
  The result is the thrown error, or the returned row id (\<open>None\<close> is \<open>null\<close>: skipped)
  with the store afterwards.
\<close>

definition insertEvent ::
  "store \<Rightarrow> event \<Rightarrow> string \<Rightarrow> bool \<Rightarrow> int \<Rightarrow> db_error + (nat option \<times> store)" where
  "insertEvent S eventData0 sessionKey' skipIfExists now =
     (let eventData = fill_session_event eventData0 in
      if skipIfExists \<and> event_exists S (event_id eventData) then Inr (None, S)
      else let row = event_record S eventData sessionKey' now in
        case events_constraint S row of
          Some err \<Rightarrow> (if err = CONSTRAINT_UNIQUE \<and> skipIfExists then Inr (None, S) else Inl err)
        | None \<Rightarrow> Inr (Some (ev_id row),
                        insert_satellites (S\<lparr>events := events S @ [row]\<rparr>) eventData now))"

subsection \<open>\<open>insertEventBatch\<close>\<close>

text \<open>
  The options object: \<open>sessionId\<close>, \<open>disableForeignKeys\<close>, and \<open>skipIfExists\<close>, which is
  handed on to \<open>insertEvent\<close> and is true when absent.
\<close>

record batch_options =
  sessionId :: "string option"
  disableForeignKeys :: bool
  skipIfExists' :: "bool option"

record batch_stats =
  inserted :: nat
  skipped :: nat
  errors :: nat

definition batch_session_id :: "event list \<Rightarrow> batch_options \<Rightarrow> string option" where
  "batch_session_id evts options =
     (if truthy (sessionId options) then sessionId options
      else case find (\<lambda>e. event_type e = ''session'') evts of
             None \<Rightarrow> None
           | Some sessionEvent \<Rightarrow> ev_session_id sessionEvent)"

definition fill_session_id :: "string option \<Rightarrow> event \<Rightarrow> event" where
  "fill_session_id sid e = (if \<not> truthy (ev_session_id e) then e\<lparr>ev_session_id := sid\<rparr> else e)"

text \<open>The transaction body: a throwing row is counted and leaves the store as it was.\<close>

fun insertTransaction ::
  "store \<Rightarrow> event list \<Rightarrow> string \<Rightarrow> bool \<Rightarrow> int \<Rightarrow> batch_stats \<Rightarrow> batch_stats \<times> store" where
  "insertTransaction S [] sessionKey' skip now st = (st, S)"
| "insertTransaction S (evt # evts) sessionKey' skip now st =
     (case insertEvent S evt sessionKey' skip now of
        Inr (Some rowId, S') \<Rightarrow>
          insertTransaction S' evts sessionKey' skip now (st\<lparr>inserted := inserted st + 1\<rparr>)
      | Inr (None, S') \<Rightarrow>
          insertTransaction S' evts sessionKey' skip now (st\<lparr>skipped := skipped st + 1\<rparr>)
      | Inl error \<Rightarrow>
          insertTransaction S evts sessionKey' skip now (st\<lparr>errors := errors st + 1\<rparr>))"

definition insertEventBatch ::
  "store \<Rightarrow> event list \<Rightarrow> string \<Rightarrow> batch_options \<Rightarrow> int \<Rightarrow> batch_stats \<times> store" where
  "insertEventBatch S evts sessionKey' options now =
     (let sid = batch_session_id evts options;
          filled = map (fill_session_id sid) evts;
          S1 = (if disableForeignKeys options then S\<lparr>foreign_keys := False\<rparr> else S);
          (st, S2) = insertTransaction S1 filled sessionKey'
                       (case skipIfExists' options of None \<Rightarrow> True | Some b \<Rightarrow> b) now
                       \<lparr>inserted = 0, skipped = 0, errors = 0\<rparr>
      in (st, if disableForeignKeys options then S2\<lparr>foreign_keys := True\<rparr> else S2))"

subsection \<open>\<open>getSessionEvents\<close> and \<open>exportSessionAsJsonl\<close>\<close>

text \<open>
  \<open>getSessionEvents\<close> without time range and type filter, as the export calls it:
  the rows of the session by ascending timestamp (NULL first, equal timestamps in
  insertion order). The thinking and usage rows that it attaches to the fetched objects
  play no part in the export and are left out.
\<close>

definition getSessionEvents :: "store \<Rightarrow> string \<Rightarrow> event_row list" where
  "getSessionEvents S sid = sort_key ev_timestamp (filter (\<lambda>r. ev_session_id r = Some sid) (events S))"

text \<open>\<open>target[k] = v\<close>: an existing key keeps its place and takes the new value.\<close>

fun assign_key :: "(string \<times> json) list \<Rightarrow> string \<Rightarrow> json \<Rightarrow> (string \<times> json) list" where
  "assign_key [] k v = [(k, v)]"
| "assign_key ((k', v') # kvs) k v =
     (if k' = k then (k, v) # kvs else (k', v') # assign_key kvs k v)"

text \<open>
  \<open>Object.assign(target, source)\<close>: the own enumerable properties of the source, in
  order: the keys of an object, the indices of an array or of a string, none otherwise.
\<close>

definition own_properties :: "json \<Rightarrow> (string \<times> json) list" where
  "own_properties source =
     (case source of
        JObj kvs \<Rightarrow> kvs
      | JArr vs \<Rightarrow> map (\<lambda>i. (decimal_int (int i), vs ! i)) [0..<length vs]
      | JStr s \<Rightarrow> map (\<lambda>i. (decimal_int (int i), JStr [s ! i])) [0..<length s]
      | _ \<Rightarrow> [])"

definition object_assign :: "(string \<times> json) list \<Rightarrow> json \<Rightarrow> (string \<times> json) list" where
  "object_assign target source = foldl (\<lambda>t (k, v). assign_key t k v) target (own_properties source)"

text \<open>
  \<open>toISOString\<close> stands for \<open>new Date(t).toISOString()\<close> of the platform, which throws a
  \<open>RangeError\<close> beyond 8.64e15 milliseconds from the epoch; a NULL timestamp reads as 0.
\<close>

datatype export_error = RangeError

definition reconstruct :: "(int \<Rightarrow> string) \<Rightarrow> event_row \<Rightarrow> export_error + json" where
  "reconstruct toISOString evt =
     (let t = (case ev_timestamp evt of None \<Rightarrow> 0 | Some t \<Rightarrow> t) in
      if \<bar>t\<bar> > 8640000000000000 then Inl RangeError
      else Inr (JObj (object_assign
             ([(''type'', JStr (if event_type evt = ''tool_result'' then ''message'' else event_type evt)),
               (''id'', JStr (event_id evt)),
               (''timestamp'', JStr (toISOString t))]
              @ (if truthy (parent_event_id evt) then [(''parentId'', JStr (the (parent_event_id evt)))] else []))
             (ev_content_json evt))))"

fun export_lines :: "(int \<Rightarrow> string) \<Rightarrow> event_row list \<Rightarrow> export_error + json list" where
  "export_lines toISOString [] = Inr []"
| "export_lines toISOString (evt # evts) =
     (if event_type evt \<in> set [''tool_call'', ''thinking_block'', ''usage_stats'']
      then export_lines toISOString evts
      else case reconstruct toISOString evt of
             Inl err \<Rightarrow> Inl err
           | Inr l \<Rightarrow> (case export_lines toISOString evts of Inl err \<Rightarrow> Inl err | Inr ls \<Rightarrow> Inr (l # ls)))"

text \<open>The result lists the documents of the lines; the text joins them with newlines.\<close>

definition exportSessionAsJsonl :: "(int \<Rightarrow> string) \<Rightarrow> store \<Rightarrow> string \<Rightarrow> export_error + json list" where
  "exportSessionAsJsonl toISOString S sid = export_lines toISOString (getSessionEvents S sid)"

section \<open>The scanner (archive-scan)\<close>

subsection \<open>\<open>checkpoint\<close> and \<open>parseInt\<close>\<close>

text \<open>
  \<open>INSERT ... ON CONFLICT(key) DO UPDATE\<close>: the row of the key is rewritten in place, or a
  new row is added.
\<close>

fun upsert_state :: "(string \<times> string \<times> int) list \<Rightarrow> string \<Rightarrow> string \<Rightarrow> int
    \<Rightarrow> (string \<times> string \<times> int) list" where
  "upsert_state [] key v now = [(key, v, now)]"
| "upsert_state ((k, row) # rows) key v now =
     (if k = key then (key, v, now) # rows else (k, row) # upsert_state rows key v now)"

text \<open>\<open>checkpoint(key, value)\<close>: with a value it writes and returns it, without it reads.\<close>

definition checkpoint :: "store \<Rightarrow> string \<Rightarrow> string option \<Rightarrow> int \<Rightarrow> string option \<times> store" where
  "checkpoint S key value' now =
     (case value' of
        Some v \<Rightarrow> (Some v, S\<lparr>archive_state := upsert_state (archive_state S) key v now\<rparr>)
      | None \<Rightarrow> (map_option fst (map_of (archive_state S) key), S))"

definition is_space :: "char \<Rightarrow> bool" where
  "is_space c = (c \<in> set [CHR '' '', CHR 0x09, CHR 0x0A, CHR 0x0B, CHR 0x0C, CHR 0x0D])"

definition is_digit :: "char \<Rightarrow> bool" where
  "is_digit c = (48 \<le> (of_char c :: int) \<and> (of_char c :: int) \<le> 57)"

definition digits_value :: "string \<Rightarrow> int" where
  "digits_value ds = foldl (\<lambda>n c. 10 * n + ((of_char c :: int) - 48)) 0 ds"

text \<open>
  \<open>parseInt\<close> on decimal text, the form in which the scanner writes its checkpoints:
  leading white space, a sign, then the longest run of digits; \<open>None\<close> (NaN) without a
  digit.
\<close>

definition parseInt :: "string \<Rightarrow> int option" where
  "parseInt s =
     (let t = dropWhile is_space s;
          neg = (t \<noteq> [] \<and> hd t = CHR ''-'');
          u = (if t \<noteq> [] \<and> (hd t = CHR ''-'' \<or> hd t = CHR ''+'') then tl t else t);
          ds = takeWhile is_digit u
      in if ds = [] then None
         else Some (if neg then - digits_value ds else digits_value ds))"

subsection \<open>\<open>scanEvents\<close>\<close>

text \<open>
  A session file as the scanner sees it: \<open>path.basename(sessionFile, '.jsonl')\<close> and the
  lines, if the file exists.
\<close>

record session_file =
  basename :: string
  file_lines :: "line list option"

record scan_stats = batch_stats +
  filesProcessed :: nat

definition EVENTS_CHECKPOINT_KEY :: string where
  "EVENTS_CHECKPOINT_KEY = ''last_events_scan_timestamp''"

text \<open>
  The loop over the files. A file whose parse throws is counted as one error; a file
  without new events is passed over.
\<close>

fun scan_files ::
  "store \<Rightarrow> session_file list \<Rightarrow> int option \<Rightarrow> bool \<Rightarrow> int \<Rightarrow> scan_stats \<Rightarrow> scan_stats \<times> store" where
  "scan_files S [] lastTimestamp force now st = (st, S)"
| "scan_files S (sessionFile # rest) lastTimestamp force now st =
     (case parseEvents (file_lines sessionFile) lastTimestamp of
        Inl err \<Rightarrow> scan_files S rest lastTimestamp force now (st\<lparr>errors := errors st + 1\<rparr>)
      | Inr evts \<Rightarrow>
          if evts = [] then scan_files S rest lastTimestamp force now st
          else let (result, S') = insertEventBatch S evts ''agent:main:main''
                                    \<lparr>sessionId = Some (basename sessionFile),
                                     disableForeignKeys = force,
                                     skipIfExists' = Some True\<rparr> now
               in scan_files S' rest lastTimestamp force now
                    (st\<lparr>inserted := inserted st + inserted result,
                        skipped := skipped st + skipped result,
                        errors := errors st + errors result,
                        filesProcessed := filesProcessed st + 1\<rparr>))"

text \<open>\<open>now\<close> is the clock of the run, read for the rows it writes and for the checkpoint.\<close>

definition scanEvents :: "store \<Rightarrow> session_file list \<Rightarrow> bool \<Rightarrow> int \<Rightarrow> scan_stats \<times> store" where
  "scanEvents archive sessionFiles force now =
     (let stored = fst (checkpoint archive EVENTS_CHECKPOINT_KEY None now);
          lastTimestamp = (if force then Some 0
                           else parseInt (if truthy stored then the stored else ''0''));
          (st, S') = scan_files archive sessionFiles lastTimestamp force now
                       \<lparr>inserted = 0, skipped = 0, errors = 0, filesProcessed = 0\<rparr>
      in (st, snd (checkpoint S' EVENTS_CHECKPOINT_KEY (Some (decimal_int now)) now)))"

section \<open>The WhatsApp export parser (backfill-parsers)\<close>

text \<open>
  The object that \<open>parseLine\<close> returns for a line that opens a message: the date and
  time as written, the trimmed sender, the text (to which the continuation lines are
  joined).
\<close>

record parsed_line =
  wa_date :: string
  wa_time :: string
  wa_sender :: string
  wa_text :: string

definition includes' :: "string \<Rightarrow> string \<Rightarrow> bool" where
  "includes' s sub = list_ex (prefix sub) (suffixes s)"

text \<open>\<open>replace(/\s+/g, '_')\<close>: every maximal run of white space becomes one underscore.\<close>

function replace_ws :: "string \<Rightarrow> string" where
  "replace_ws [] = []"
| "replace_ws (c # cs) =
     (if is_space c then CHR ''_'' # replace_ws (dropWhile is_space cs) else c # replace_ws cs)"
  by pat_completeness auto
termination
  by (relation "measure length") (auto simp: length_dropWhile_le less_Suc_eq_le)

text \<open>
  \<open>parse_date\<close> stands for \<open>new Date(text).getTime()\<close> of the platform (NaN when the
  text is not a date).
\<close>

definition normalizeMessage :: "(string \<Rightarrow> int option) \<Rightarrow> parsed_line \<Rightarrow> int \<Rightarrow> message_data" where
  "normalizeMessage parse_date parsed now =
     (let timestamp' = parse_date (wa_date parsed @ '' '' @ wa_time parsed);
          (contentType, contentText) =
            (if includes' (wa_text parsed) ''<Media omitted>'' \<or> includes' (wa_text parsed) ''image omitted''
               then (''image'', ''[Image]'')
             else if includes' (wa_text parsed) ''video omitted'' then (''video'', ''[Video]'')
             else if includes' (wa_text parsed) ''audio omitted'' \<or> includes' (wa_text parsed) ''voice message''
               then (''audio'', ''[Audio]'')
             else if includes' (wa_text parsed) ''document omitted'' \<or> includes' (wa_text parsed) ''attached:''
               then (''document'', ''[Document]'')
             else if includes' (wa_text parsed) ''location:'' then (''location'', wa_text parsed)
             else if includes' (wa_text parsed) ''sticker omitted'' then (''sticker'', ''[Sticker]'')
             else (''text'', wa_text parsed))
      in \<lparr>message_id = ''whatsapp_export_'' @ string_of_num timestamp' @ ''_'' @ replace_ws (wa_sender parsed),
          internal_id = None,
          session_key = ''imported:whatsapp:export'',
          session_id = None,
          direction = (if wa_sender parsed = ''You'' then ''outbound'' else ''inbound''),
          sender_id = None,
          sender_name = Some (wa_sender parsed),
          recipient_id = None,
          recipient_name = None,
          channel = ''whatsapp'',
          device_id = None,
          content_type = Some contentType,
          content_text = Some contentText,
          content_json = Some (JObj [(''date'', JStr (wa_date parsed)), (''time'', JStr (wa_time parsed)),
                                     (''sender'', JStr (wa_sender parsed)), (''text'', JStr (wa_text parsed))]),
          reply_to_id = None,
          thread_id = None,
          timestamp = timestamp',
          edited_at = None,
          deleted_at = None,
          created_at = Some now\<rparr>)"

section \<open>Sample inputs\<close>

text \<open>A message as the test suite of the repository inserts it, and the stores built from it.\<close>

definition sample_message :: message_data where
  "sample_message =
     \<lparr>message_id = ''test_msg_1'', internal_id = None, session_key = ''test:session'',
      session_id = None, direction = ''inbound'', sender_id = Some ''user123'',
      sender_name = Some ''Test User'', recipient_id = None, recipient_name = None,
      channel = ''test'', device_id = None, content_type = Some ''text'',
      content_text = Some ''hello'', content_json = None, reply_to_id = None,
      thread_id = None, timestamp = Some 1000, edited_at = None, deleted_at = None,
      created_at = None\<rparr>"

definition store_of :: "db_error + (nat option \<times> store) \<Rightarrow> store" where
  "store_of res = (case res of Inr (_, S) \<Rightarrow> S | Inl _ \<Rightarrow> empty_store)"

definition sample_store :: store where
  "sample_store = store_of (insertMessage (\<lambda>p. p) empty_store sample_message True 5)"


text \<open>
  The same message sent again under another id half a second later, and the same pair
  with an empty text (a message that carries an attachment only).
\<close>

definition sample_retry :: message_data where
  "sample_retry = sample_message\<lparr>message_id := ''test_msg_2'', timestamp := Some 1500\<rparr>"

definition sample_empty_text :: message_data where
  "sample_empty_text = sample_message\<lparr>content_text := Some []\<rparr>"

definition sample_empty_text_retry :: message_data where
  "sample_empty_text_retry =
     sample_message\<lparr>message_id := ''test_msg_2'', content_text := Some [], timestamp := Some 1500\<rparr>"


subsection \<open>Source records\<close>

text \<open>
  The session record of a fresh log, the same record without a readable timestamp, a
  record of a type the parser does not know, and an assistant message with a tool call,
  a thinking block and usage.
\<close>

definition sample_session_raw :: raw_event where
  "sample_session_raw =
     \<lparr>raw_type = ''session'', raw_id = ''AAA'', raw_parentId = None, raw_timestamp = Some 1000,
      raw_version = Some (JNum 3), raw_cwd = Some (JStr ''/x''), raw_provider = None,
      raw_modelId = None, raw_thinkingLevel = None, raw_customType = None, raw_data = None,
      raw_message = None\<rparr>"

definition sample_undated_raw :: raw_event where
  "sample_undated_raw = sample_session_raw\<lparr>raw_timestamp := None\<rparr>"

definition sample_unknown_raw :: raw_event where
  "sample_unknown_raw = sample_session_raw\<lparr>raw_type := ''compaction'', raw_id := ''C1''\<rparr>"

definition sample_assistant_msg :: message where
  "sample_assistant_msg =
     \<lparr>msg_role = Some ''assistant'',
      msg_content = Some (ContentBlocks
        [TextBlock ''Let me check'',
         ToolCall ''T1'' ''exec'' (Some (JObj [])) None,
         Thinking (Some ''This is my thinking...'') (Some ''ABC123'')]),
      msg_provider = Some ''anthropic'', msg_model = Some ''claude-sonnet-4-5'',
      msg_usage = Some (JObj [(''input'', JNum 100), (''output'', JNum 50), (''totalTokens'', JNum 150)]),
      msg_toolName = None, msg_isError = None, msg_extra = []\<rparr>"

definition sample_message_raw :: raw_event where
  "sample_message_raw =
     \<lparr>raw_type = ''message'', raw_id = ''M'', raw_parentId = None, raw_timestamp = Some 2000,
      raw_version = None, raw_cwd = None, raw_provider = None,
      raw_modelId = None, raw_thinkingLevel = None, raw_customType = None, raw_data = None,
      raw_message = Some sample_assistant_msg\<rparr>"


definition sample_options :: batch_options where
  "sample_options = \<lparr>sessionId = Some ''AAA'', disableForeignKeys = False, skipIfExists' = Some True\<rparr>"




text \<open>
  A user message whose message object carries its own \<open>timestamp\<close>, as the message
  parser of the repository expects (\<open>rawMessage.timestamp\<close>); the store after the scanner
  has ingested the session record and this message; and the ISO texts of the two
  instants.
\<close>

definition sample_user_raw :: raw_event where
  "sample_user_raw =
     \<lparr>raw_type = ''message'', raw_id = ''U1'', raw_parentId = Some ''AAA'', raw_timestamp = Some 1500,
      raw_version = None, raw_cwd = None, raw_provider = None,
      raw_modelId = None, raw_thinkingLevel = None, raw_customType = None, raw_data = None,
      raw_message = Some
        \<lparr>msg_role = Some ''user'', msg_content = Some (ContentBlocks [TextBlock ''Hello'']),
         msg_provider = None, msg_model = None, msg_usage = None, msg_toolName = None,
         msg_isError = None, msg_extra = [(''timestamp'', JNum 1499)]\<rparr>\<rparr>"

definition sample_export_store :: store where
  "sample_export_store =
     snd (insertEventBatch empty_store
            (parse_lines [Record sample_session_raw, Record sample_user_raw] (Some 0))
            ''agent:main:main'' sample_options 5)"

definition sample_toISOString :: "int \<Rightarrow> string" where
  "sample_toISOString t =
     (if t = 1000 then ''1970-01-01T00:00:01.000Z''
      else if t = 1500 then ''1970-01-01T00:00:01.500Z'' else [])"


section \<open>The identifiers of the specification\<close>

text \<open>
  Invariant I2 of the specification, in its words: a tool call of block id \<open>t\<close> under the
  parent \<open>P\<close> is \<open>P_tool_t\<close>, the thinking block is \<open>P_thinking\<close>. The list gives, for
  one content block, the event types and identifiers that I2 prescribes.
\<close>

definition spec_synthetic_ids :: "string \<Rightarrow> content_block \<Rightarrow> (string \<times> string) list" where
  "spec_synthetic_ids P b =
     (case b of
        ToolCall i n a inp \<Rightarrow> [(''tool_call'', P @ ''_tool_'' @ i)]
      | ToolUse i n a inp \<Rightarrow> [(''tool_call'', P @ ''_tool_'' @ i)]
      | Thinking t sg \<Rightarrow> [(''thinking_block'', P @ ''_thinking'')]
      | _ \<Rightarrow> [])"

section \<open>Sample export lines\<close>

text \<open>
  Two lines of a WhatsApp export in the first date format, sent by the same person in the
  same minute, and a date parser that reads this minute.
\<close>

definition sample_line_1 :: parsed_line where
  "sample_line_1 = \<lparr>wa_date = ''12/31/23'', wa_time = ''10:30 PM'', wa_sender = ''John Doe'', wa_text = ''Hi''\<rparr>"

definition sample_line_2 :: parsed_line where
  "sample_line_2 = sample_line_1\<lparr>wa_text := ''Are you there?''\<rparr>"

definition sample_parse_date :: "string \<Rightarrow> int option" where
  "sample_parse_date s = (if s = ''12/31/23 10:30 PM'' then Some 1704061800000 else None)"







section \<open>Properties of the message operations\<close>

subsection \<open>Queries\<close>










subsection \<open>Deduplication\<close>

lemma insertMessage_inserted:
  assumes "insertMessage H S m skip now = Inr (Some rid, S1)"
  shows "S1 = S\<lparr>messages := messages S @ [message_record H S m now]\<rparr>"
    and "messages_constraint S (message_record H S m now) = None"
    and "rid = id' (message_record H S m now)"
    and "\<not> (skip \<and> isDuplicate H S m)"
  using assms
  by (auto simp: insertMessage_def Let_def split: if_splits option.splits)

lemma insertMessage_empty:
  assumes "insertMessage H empty_store m1 True now1 = Inr (Some rid, S1)"
  shows "S1 = empty_store\<lparr>messages := [message_record H empty_store m1 now1]\<rparr>"
proof -
  have "messages empty_store = []" by (simp add: empty_store_def)
  with insertMessage_inserted(1)[OF assms] show ?thesis by simp
qed

lemma insertMessage_duplicate:
  "isDuplicate H S m \<Longrightarrow> insertMessage H S m True now = Inr (None, S)"
  by (simp add: insertMessage_def)

lemma or_null_eq_truthy: "truthy b \<Longrightarrow> (or_null a = b) = (a = b)"
  by (auto simp: or_null_def truthy_def split: option.splits)

lemma isDuplicate_single:
  "isDuplicate H (empty_store\<lparr>messages := [message_record H empty_store m1 now1]\<rparr>) m2
   = (message_id m1 = message_id m2
      \<or> hashMessage H m1 = hashMessage H m2
      \<or> (truthy (sender_id m2) \<and> truthy (content_text m2)
          \<and> sender_id m1 = sender_id m2 \<and> content_text m1 = content_text m2
          \<and> abs_lt_1000 (timestamp m1) (timestamp m2)))"
  by (auto simp: isDuplicate_def message_record_def or_null_eq_truthy)

text \<open>
  Claim C2, as the code has it. Let \<open>m1\<close> be inserted into the empty store with
  \<open>skipIfExists\<close>. Then \<open>m2\<close> is a duplicate exactly when it has the message id of \<open>m1\<close>,
  or the fingerprint of \<open>m1\<close>, or when its sender id and its text are both present
  (non-empty) and equal to those of \<open>m1\<close> and the timestamps are less than 1000 ms apart.
  In each of these cases the second insert returns \<open>null\<close> and leaves the store as it
  was, with its single row. The fingerprint function \<open>H\<close> is arbitrary.
\<close>

theorem dedup_sound:
  assumes "insertMessage H empty_store m1 True now1 = Inr (Some rid, S1)"
  shows "isDuplicate H S1 m2
           = (message_id m1 = message_id m2
              \<or> hashMessage H m1 = hashMessage H m2
              \<or> (truthy (sender_id m2) \<and> truthy (content_text m2)
                  \<and> sender_id m1 = sender_id m2 \<and> content_text m1 = content_text m2
                  \<and> abs_lt_1000 (timestamp m1) (timestamp m2)))
         \<and> (message_id m1 = message_id m2
              \<or> hashMessage H m1 = hashMessage H m2
              \<or> (truthy (sender_id m2) \<and> truthy (content_text m2)
                  \<and> sender_id m1 = sender_id m2 \<and> content_text m1 = content_text m2
                  \<and> abs_lt_1000 (timestamp m1) (timestamp m2))
             \<longrightarrow> insertMessage H S1 m2 True now2 = Inr (None, S1))
         \<and> length (messages S1) = 1"
proof -
  have S1: "S1 = empty_store\<lparr>messages := [message_record H empty_store m1 now1]\<rparr>"
    using assms by (rule insertMessage_empty)
  show ?thesis
    unfolding S1
    by (simp add: insertMessage_duplicate isDuplicate_single)
qed

theorem dedup_sound_witness:
  "insertMessage (\<lambda>p. p) empty_store sample_message True 5 = Inr (Some 1, sample_store)
   \<and> truthy (sender_id sample_retry) \<and> truthy (content_text sample_retry)
   \<and> sender_id sample_message = sender_id sample_retry
   \<and> content_text sample_message = content_text sample_retry
   \<and> abs_lt_1000 (timestamp sample_message) (timestamp sample_retry)
   \<and> insertMessage (\<lambda>p. p) sample_store sample_retry True 6 = Inr (None, sample_store)
   \<and> length (messages sample_store) = 1"
proof -
  have ins: "insertMessage (\<lambda>p. p) empty_store sample_message True 5 = Inr (Some 1, sample_store)"
    by code_simp
  have hyp: "truthy (sender_id sample_retry) \<and> truthy (content_text sample_retry)
     \<and> sender_id sample_message = sender_id sample_retry
     \<and> content_text sample_message = content_text sample_retry
     \<and> abs_lt_1000 (timestamp sample_message) (timestamp sample_retry)"
    by code_simp
  from dedup_sound[OF ins, of sample_retry 6] hyp ins show ?thesis by simp
qed

text \<open>
  The claim as the specification words it fails: two messages of one sender with the
  same (empty) text, half a second apart, under different ids. The third stage is not
  run for a message without text, the fingerprints differ with the timestamps
  (the fingerprint function here is the payload itself, which, like SHA-256 on these two
  payloads, tells them apart), and both rows are stored.
\<close>

theorem dedup_claim_counterexample:
  "sender_id sample_empty_text = sender_id sample_empty_text_retry
   \<and> content_text sample_empty_text = content_text sample_empty_text_retry
   \<and> abs_lt_1000 (timestamp sample_empty_text) (timestamp sample_empty_text_retry)
   \<and> (case insertMessage (\<lambda>p. p) empty_store sample_empty_text True 5 of
         Inl _ \<Rightarrow> False
       | Inr (rid1, S1) \<Rightarrow>
           rid1 = Some 1
           \<and> (case insertMessage (\<lambda>p. p) S1 sample_empty_text_retry True 6 of
                Inl _ \<Rightarrow> False
              | Inr (rid2, S2) \<Rightarrow>
                  rid2 = Some 2 \<and> map message_id (messages S2) = [''test_msg_1'', ''test_msg_2'']))"
  by code_simp

subsection \<open>Edits\<close>

lemma updateMessage_absent:
  "\<not> list_ex (\<lambda>r. message_id r = mid) (messages S) \<Longrightarrow> updateMessage S mid new t = Inr S"
proof -
  assume "\<not> list_ex (\<lambda>r. message_id r = mid) (messages S)"
  then have "find (\<lambda>r. message_id r = mid) (messages S) = None"
    by (simp add: find_None_iff list_ex_iff)
  then show ?thesis by (simp add: updateMessage_def)
qed

lemma updateMessage_present:
  assumes "find (\<lambda>r. message_id r = mid) (messages S) = Some r" and "content_text r = Some old"
  shows "\<exists>S'. updateMessage S mid new t = Inr S'
           \<and> edits S' = edits S @ [\<lparr>edit_id = next_id (map edit_id (edits S)), edit_message_id = mid,
                                     previous_content = old, edit_edited_at = t\<rparr>]
           \<and> map message_id (messages S') = map message_id (messages S)
           \<and> (\<forall>q \<in> set (messages S'). message_id q = mid
                 \<longrightarrow> content_text q = Some new \<and> edited_at q = Some t)"
proof -
  define g where "g = (\<lambda>r::message_row. if message_id r = mid
                         then r\<lparr>content_text := Some new, edited_at := Some t\<rparr> else r)"
  define S' where "S' = S\<lparr>edits := edits S @ [\<lparr>edit_id = next_id (map edit_id (edits S)),
                              edit_message_id = mid, previous_content = old, edit_edited_at = t\<rparr>],
                          messages := map g (messages S)\<rparr>"
  have res: "updateMessage S mid new t = Inr S'"
    using assms by (simp add: updateMessage_def S'_def g_def)
  have e: "edits S' = edits S @ [\<lparr>edit_id = next_id (map edit_id (edits S)), edit_message_id = mid,
                                  previous_content = old, edit_edited_at = t\<rparr>]"
    by (simp add: S'_def)
  have m: "messages S' = map g (messages S)" by (simp add: S'_def)
  have gid: "\<And>r. message_id (g r) = message_id r" by (simp add: g_def)
  have ids: "map message_id (messages S') = map message_id (messages S)"
    unfolding m by (simp add: o_def gid)
  have upd: "\<forall>q \<in> set (messages S'). message_id q = mid
                 \<longrightarrow> content_text q = Some new \<and> edited_at q = Some t"
  proof
    fix q assume "q \<in> set (messages S')"
    then have "q \<in> g ` set (messages S)" unfolding m by simp
    then obtain p where p: "q = g p" by (rule imageE)
    show "message_id q = mid \<longrightarrow> content_text q = Some new \<and> edited_at q = Some t"
    proof
      assume "message_id q = mid"
      then have "message_id p = mid" using gid p by simp
      then show "content_text q = Some new \<and> edited_at q = Some t"
        unfolding p g_def by simp
    qed
  qed
  from res e ids upd show ?thesis by blast
qed

text \<open>
  Claim C8 at a message whose text is empty. \<open>insertMessage\<close> stores the empty text as
  NULL; \<open>updateMessage\<close> on this existing message then fails on
  \<open>edits.previous_content NOT NULL\<close>: it throws instead of appending the edit and
  rewriting the message.
\<close>

theorem updateMessage_null_content_throws:
  "(case insertMessage (\<lambda>p. p) empty_store sample_empty_text True 5 of
      Inl _ \<Rightarrow> False
    | Inr (rid, S) \<Rightarrow>
        rid = Some 1 \<and> map content_text (messages S) = [None]
        \<and> updateMessage S ''test_msg_1'' ''Edited content'' 7 = Inl CONSTRAINT_NOTNULL)"
  by code_simp

section \<open>Properties of the event-log parser\<close>

lemma parse_lines_append:
  "parse_lines (xs @ ys) s = parse_lines xs s @ parse_lines ys s"
proof (induction xs)
  case Nil
  show ?case by simp
next
  case (Cons l xs)
  then show ?case by (cases l) (simp_all split: option.splits)
qed

lemma main_event_fields:
  "event_id (main_event raw msg) = raw_id raw"
  "parent_event_id (main_event raw msg) = or_null (raw_parentId raw)"
  "ev_session_id (main_event raw msg) = None"
  "event_type (main_event raw msg) = (if msg_role msg = Some ''toolResult'' then ''tool_result'' else ''message'')"
  "ev_timestamp (main_event raw msg) = raw_timestamp raw"
  by (simp_all add: main_event_def Let_def)

lemma tool_call_event_fields:
  "event_id (tool_call_event raw i n a inp) = raw_id raw @ ''_tool_'' @ i"
  "parent_event_id (tool_call_event raw i n a inp) = Some (raw_id raw)"
  "ev_session_id (tool_call_event raw i n a inp) = None"
  "event_type (tool_call_event raw i n a inp) = ''tool_call''"
  "ev_timestamp (tool_call_event raw i n a inp) = raw_timestamp raw"
  by (simp_all add: tool_call_event_def)

lemma thinking_event_fields:
  "event_id (thinking_event raw t sg) = raw_id raw @ ''_thinking''"
  "parent_event_id (thinking_event raw t sg) = Some (raw_id raw)"
  "ev_session_id (thinking_event raw t sg) = None"
  "event_type (thinking_event raw t sg) = ''thinking_block''"
  "ev_timestamp (thinking_event raw t sg) = raw_timestamp raw"
  by (simp_all add: thinking_event_def Let_def)

lemma usage_event_fields:
  "event_id (usage_event raw msg u) = raw_id raw @ ''_usage''"
  "parent_event_id (usage_event raw msg u) = Some (raw_id raw)"
  "ev_session_id (usage_event raw msg u) = None"
  "event_type (usage_event raw msg u) = ''usage_stats''"
  "ev_timestamp (usage_event raw msg u) = raw_timestamp raw"
  by (simp_all add: usage_event_def)

lemmas event_fields = main_event_fields tool_call_event_fields thinking_event_fields usage_event_fields

lemma block_events_cases:
  assumes "e \<in> set (block_events raw b)"
  obtains i n a inp where "e = tool_call_event raw i n a inp" "b = ToolCall i n a inp \<or> b = ToolUse i n a inp"
        | t sg where "e = thinking_event raw t sg" "b = Thinking t sg"
  using assms by (cases b) (auto simp: block_events_def)

lemma parseMessageEvent_cases:
  assumes "parseMessageEvent raw = Some evs" and "e \<in> set evs"
  obtains msg where "raw_message raw = Some msg" "e = main_event raw msg"
        | msg b where "raw_message raw = Some msg" "msg_role msg = Some ''assistant''"
                      "b \<in> set (content_blocks msg)" "e \<in> set (block_events raw b)"
        | msg where "raw_message raw = Some msg" "msg_role msg = Some ''assistant''"
                    "js_truthy (msg_usage msg)" "e = usage_event raw msg (the (msg_usage msg))"
proof (cases "raw_message raw")
  case None
  with assms show ?thesis by (simp add: parseMessageEvent_def)
next
  case (Some msg)
  with assms have "e = main_event raw msg
     \<or> (msg_role msg = Some ''assistant'' \<and> (\<exists>b \<in> set (content_blocks msg). e \<in> set (block_events raw b)))
     \<or> (msg_role msg = Some ''assistant'' \<and> js_truthy (msg_usage msg)
         \<and> e = usage_event raw msg (the (msg_usage msg)))"
    by (auto simp: parseMessageEvent_def synthetic_events_def split: if_splits)
  with Some that show ?thesis by blast
qed

lemma parseMessageEvent_timestamp:
  assumes "parseMessageEvent raw = Some evs" and "e \<in> set evs"
  shows "ev_timestamp e = raw_timestamp raw"
  using assms
proof (cases rule: parseMessageEvent_cases)
  case (1 msg)
  then show ?thesis by (simp add: event_fields)
next
  case (2 msg b)
  from 2(4) show ?thesis by (cases rule: block_events_cases) (simp_all add: event_fields)
next
  case (3 msg)
  then show ?thesis by (simp add: event_fields)
qed

lemma parseEvent_timestamp:
  "parseEvent raw = Some evs \<Longrightarrow> e \<in> set evs \<Longrightarrow> ev_timestamp e = raw_timestamp raw"
  by (auto simp: parseEvent_def parseSessionEvent_def parseModelChangeEvent_def
      parseThinkingLevelEvent_def parseCustomEvent_def
      split: if_splits dest: parseMessageEvent_timestamp)

lemma parse_lines_timestamp:
  "e \<in> set (parse_lines ls (Some w)) \<Longrightarrow> (case ev_timestamp e of None \<Rightarrow> True | Some t \<Rightarrow> w < t)"
proof (induction ls)
  case Nil
  then show ?case by simp
next
  case (Cons l ls)
  show ?case
  proof (cases l)
    case Blank
    with Cons show ?thesis by simp
  next
    case Malformed
    with Cons show ?thesis by simp
  next
    case (Record raw)
    show ?thesis
    proof (cases "js_le (raw_timestamp raw) (Some w)")
      case True
      with Cons Record show ?thesis by simp
    next
      case False
      show ?thesis
      proof (cases "parseEvent raw")
        case None
        with Cons Record False show ?thesis by simp
      next
        case (Some evs)
        with Cons.prems Record False have "e \<in> set evs \<or> e \<in> set (parse_lines ls (Some w))"
          by simp
        then show ?thesis
        proof
          assume "e \<in> set evs"
          then have "ev_timestamp e = raw_timestamp raw" using Some by (rule parseEvent_timestamp[rotated])
          with False show ?thesis by (auto simp: js_le_def split: option.splits)
        next
          assume "e \<in> set (parse_lines ls (Some w))"
          then show ?thesis by (rule Cons.IH)
        qed
      qed
    qed
  qed
qed

lemma parseEvent_unknown:
  "raw_type r \<notin> set [''session'', ''model_change'', ''thinking_level_change'', ''custom'', ''message'']
   \<Longrightarrow> parseEvent r = Some []"
  by (simp add: parseEvent_def)

text \<open>
  Claim C7, as the code has it. Every event that \<open>parseEvents\<close> emits for a watermark
  \<open>w\<close> has a timestamp strictly greater than \<open>w\<close>, or no timestamp at all: a record whose
  timestamp is absent or unreadable reads as NaN, and NaN passes the test
  \<open>timestamp <= sinceTimestamp\<close>. A blank line, a line that does not parse and a record of
  a type other than the five known ones add nothing to the output and do not stop the
  parse. A missing file is an error, not an empty result.
\<close>

theorem parser_resilience:
  "(\<forall>e \<in> set (parse_lines ls (Some w)). case ev_timestamp e of None \<Rightarrow> True | Some t \<Rightarrow> w < t)
   \<and> parseEvents (Some ls) (Some w) = Inr (parse_lines ls (Some w))
   \<and> parse_lines (pre @ Blank # post) s = parse_lines (pre @ post) s
   \<and> parse_lines (pre @ Malformed # post) s = parse_lines (pre @ post) s
   \<and> (raw_type r \<notin> set [''session'', ''model_change'', ''thinking_level_change'', ''custom'', ''message'']
        \<longrightarrow> parse_lines (pre @ Record r # post) s = parse_lines (pre @ post) s)
   \<and> parseEvents None s = Inl Session_file_not_found"
proof (intro conjI ballI impI)
  fix e assume "e \<in> set (parse_lines ls (Some w))"
  then show "case ev_timestamp e of None \<Rightarrow> True | Some t \<Rightarrow> w < t" by (rule parse_lines_timestamp)
next
  show "parseEvents (Some ls) (Some w) = Inr (parse_lines ls (Some w))" by (simp add: parseEvents_def)
next
  show "parse_lines (pre @ Blank # post) s = parse_lines (pre @ post) s"
    by (simp add: parse_lines_append)
next
  show "parse_lines (pre @ Malformed # post) s = parse_lines (pre @ post) s"
    by (simp add: parse_lines_append)
next
  assume "raw_type r \<notin> set [''session'', ''model_change'', ''thinking_level_change'', ''custom'', ''message'']"
  then have "parseEvent r = Some []" by (rule parseEvent_unknown)
  then show "parse_lines (pre @ Record r # post) s = parse_lines (pre @ post) s"
    by (simp add: parse_lines_append)
next
  show "parseEvents None s = Inl Session_file_not_found" by (simp add: parseEvents_def)
qed


lemma block_events_ids:
  "map (\<lambda>e. (event_type e, event_id e)) (block_events raw b) = spec_synthetic_ids (raw_id raw) b"
  by (cases b) (simp_all add: block_events_def spec_synthetic_ids_def event_fields)

lemma blocks_events_ids:
  "map (\<lambda>e. (event_type e, event_id e)) (concat (map (block_events raw) bs))
     = concat (map (spec_synthetic_ids (raw_id raw)) bs)"
  by (induction bs) (simp_all add: block_events_ids)

lemma parseMessageEvent_ids:
  assumes "raw_message raw = Some msg"
  shows "parseMessageEvent raw \<noteq> None"
    and "map (\<lambda>e. (event_type e, event_id e)) (the (parseMessageEvent raw))
          = ((if msg_role msg = Some ''toolResult'' then ''tool_result'' else ''message''), raw_id raw)
            # (if msg_role msg = Some ''assistant''
               then concat (map (spec_synthetic_ids (raw_id raw)) (content_blocks msg)) else [])
            @ (if msg_role msg = Some ''assistant'' \<and> js_truthy (msg_usage msg)
               then [(''usage_stats'', raw_id raw @ ''_usage'')] else [])"
  using assms by (simp_all add: parseMessageEvent_def synthetic_events_def blocks_events_ids event_fields)

text \<open>
  Claim C4. For a message record with id \<open>P\<close> the parser emits the main event under
  \<open>P\<close>, then, for an assistant message, one event per tool-call block under
  \<open>P_tool_\<close> followed by the block id and one per thinking block under \<open>P_thinking\<close>, in
  block order, then the usage event under \<open>P_usage\<close>. The identifiers are a function of
  the record id and the message alone: any record with the same id and message (whatever
  its timestamp or parent) yields the same list, and so does a second parse.
\<close>

theorem synthetic_ids_deterministic:
  assumes "raw_message raw = Some msg"
  shows "parseMessageEvent raw \<noteq> None
    \<and> map (\<lambda>e. (event_type e, event_id e)) (the (parseMessageEvent raw))
          = ((if msg_role msg = Some ''toolResult'' then ''tool_result'' else ''message''), raw_id raw)
            # (if msg_role msg = Some ''assistant''
               then concat (map (spec_synthetic_ids (raw_id raw)) (content_blocks msg)) else [])
            @ (if msg_role msg = Some ''assistant'' \<and> js_truthy (msg_usage msg)
               then [(''usage_stats'', raw_id raw @ ''_usage'')] else [])
    \<and> (\<forall>raw'. raw_id raw' = raw_id raw \<and> raw_message raw' = raw_message raw
          \<longrightarrow> map event_id (the (parseMessageEvent raw')) = map event_id (the (parseMessageEvent raw)))"
proof (intro conjI allI impI)
  show "parseMessageEvent raw \<noteq> None" using assms by (rule parseMessageEvent_ids)
next
  show "map (\<lambda>e. (event_type e, event_id e)) (the (parseMessageEvent raw))
          = ((if msg_role msg = Some ''toolResult'' then ''tool_result'' else ''message''), raw_id raw)
            # (if msg_role msg = Some ''assistant''
               then concat (map (spec_synthetic_ids (raw_id raw)) (content_blocks msg)) else [])
            @ (if msg_role msg = Some ''assistant'' \<and> js_truthy (msg_usage msg)
               then [(''usage_stats'', raw_id raw @ ''_usage'')] else [])"
    using assms by (rule parseMessageEvent_ids)
next
  fix raw' :: raw_event
  assume h: "raw_id raw' = raw_id raw \<and> raw_message raw' = raw_message raw"
  then have m': "raw_message raw' = Some msg" using assms by simp
  have "map snd (map (\<lambda>e. (event_type e, event_id e)) (the (parseMessageEvent raw')))
        = map snd (map (\<lambda>e. (event_type e, event_id e)) (the (parseMessageEvent raw)))"
    unfolding parseMessageEvent_ids(2)[OF m'] parseMessageEvent_ids(2)[OF assms] using h by simp
  then show "map event_id (the (parseMessageEvent raw')) = map event_id (the (parseMessageEvent raw))"
    by (simp add: o_def)
qed


theorem synthetic_ids_deterministic_witness:
  "raw_message sample_message_raw = Some sample_assistant_msg
   \<and> map (\<lambda>e. (event_type e, event_id e)) (the (parseMessageEvent sample_message_raw))
       = [(''message'', ''M''), (''tool_call'', ''M_tool_T1''), (''thinking_block'', ''M_thinking''),
          (''usage_stats'', ''M_usage'')]
   \<and> map event_id (the (parseMessageEvent (sample_message_raw\<lparr>raw_timestamp := Some 9000\<rparr>)))
       = map event_id (the (parseMessageEvent sample_message_raw))"
proof -
  have h: "raw_message sample_message_raw = Some sample_assistant_msg"
    by (simp add: sample_message_raw_def)
  have r: "raw_id (sample_message_raw\<lparr>raw_timestamp := Some 9000\<rparr>) = raw_id sample_message_raw
           \<and> raw_message (sample_message_raw\<lparr>raw_timestamp := Some 9000\<rparr>) = raw_message sample_message_raw"
    by simp
  have e: "((if msg_role sample_assistant_msg = Some ''toolResult'' then ''tool_result'' else ''message''),
              raw_id sample_message_raw)
            # (if msg_role sample_assistant_msg = Some ''assistant''
               then concat (map (spec_synthetic_ids (raw_id sample_message_raw))
                              (content_blocks sample_assistant_msg)) else [])
            @ (if msg_role sample_assistant_msg = Some ''assistant'' \<and> js_truthy (msg_usage sample_assistant_msg)
               then [(''usage_stats'', raw_id sample_message_raw @ ''_usage'')] else [])
           = [(''message'', ''M''), (''tool_call'', ''M_tool_T1''), (''thinking_block'', ''M_thinking''),
              (''usage_stats'', ''M_usage'')]"
    by code_simp
  from synthetic_ids_deterministic[OF h] h r e show ?thesis by metis
qed

theorem parser_resilience_witness:
  "raw_type sample_unknown_raw
      \<notin> set [''session'', ''model_change'', ''thinking_level_change'', ''custom'', ''message'']
   \<and> parse_lines ([Record sample_session_raw] @ Record sample_unknown_raw # [Blank]) (Some 500)
       = parse_lines ([Record sample_session_raw] @ [Blank]) (Some 500)
   \<and> map event_id (parse_lines [Malformed, Record sample_session_raw] (Some 500)) = [''AAA'']
   \<and> map ev_timestamp (parse_lines [Malformed, Record sample_session_raw] (Some 500)) = [Some 1000]
   \<and> parse_lines [Malformed, Record sample_session_raw] (Some 1000) = []"
proof -
  have u: "raw_type sample_unknown_raw
      \<notin> set [''session'', ''model_change'', ''thinking_level_change'', ''custom'', ''message'']"
    by code_simp
  have a: "map event_id (parse_lines [Malformed, Record sample_session_raw] (Some 500)) = [''AAA'']"
    by code_simp
  have b: "parse_lines [Malformed, Record sample_session_raw] (Some 1000) = []"
    by code_simp
  have c: "map ev_timestamp (parse_lines [Malformed, Record sample_session_raw] (Some 500)) = [Some 1000]"
    by code_simp
  from parser_resilience[where ls = "[Malformed, Record sample_session_raw]" and w = 500
      and pre = "[Record sample_session_raw]" and post = "[Blank]" and r = sample_unknown_raw
      and s = "Some 500"] u a b c
  show ?thesis by blast
qed

text \<open>
  The claim as the specification words it fails on a record without a readable
  timestamp: with watermark 0 the parser emits its event, whose timestamp is NaN and so
  not greater than the watermark.
\<close>

theorem watermark_claim_counterexample:
  "map ev_timestamp (parse_lines [Record sample_undated_raw] (Some 0)) = [None]
   \<and> parseEvents (Some [Record sample_undated_raw]) (Some 0)
       = Inr [parseSessionEvent sample_undated_raw]"
  by code_simp

section \<open>Properties of the WhatsApp import\<close>

lemma normalizeMessage_id:
  "message_id (normalizeMessage parse_date p now)
     = ''whatsapp_export_'' @ string_of_num (parse_date (wa_date p @ '' '' @ wa_time p))
       @ ''_'' @ replace_ws (wa_sender p)"
  by (simp add: normalizeMessage_def Let_def split: prod.splits)

lemma isDuplicate_same_id:
  "list_ex (\<lambda>r. message_id r = message_id m) (messages S) \<Longrightarrow> isDuplicate H S m"
  by (simp add: isDuplicate_def)

lemma message_record_id: "message_id (message_record H S m now) = message_id m"
  by (simp add: message_record_def)

text \<open>
  Claim C10. The message id that the WhatsApp parser mints is \<open>whatsapp_export_\<close>, the
  parsed timestamp, an underscore and the sender with each run of white space replaced
  by an underscore: it does not depend on the text. Two lines with the same sender and
  the same parsed timestamp therefore receive the same id, whatever their texts; once
  the first is stored, the id check of \<open>isDuplicate\<close> finds its row, the second insert
  returns \<open>null\<close>, and the batch reports one message inserted and one skipped.
\<close>

theorem whatsapp_id_collision:
  assumes sender: "wa_sender p1 = wa_sender p2"
      and time: "parse_date (wa_date p1 @ '' '' @ wa_time p1) = parse_date (wa_date p2 @ '' '' @ wa_time p2)"
      and first: "insertMessage H S (normalizeMessage parse_date p1 now1) True now = Inr (Some rid, S1)"
  shows "message_id (normalizeMessage parse_date p1 now1)
           = ''whatsapp_export_'' @ string_of_num (parse_date (wa_date p1 @ '' '' @ wa_time p1))
             @ ''_'' @ replace_ws (wa_sender p1)
       \<and> message_id (normalizeMessage parse_date p2 now2) = message_id (normalizeMessage parse_date p1 now1)
       \<and> list_ex (\<lambda>r. message_id r = message_id (normalizeMessage parse_date p2 now2)) (messages S1)
       \<and> insertMessage H S1 (normalizeMessage parse_date p2 now2) True now = Inr (None, S1)
       \<and> insertBatch H S [normalizeMessage parse_date p1 now1, normalizeMessage parse_date p2 now2] now
           = Inr ((1, 1), S1)"
proof -
  let ?m1 = "normalizeMessage parse_date p1 now1" and ?m2 = "normalizeMessage parse_date p2 now2"
  have ids: "message_id ?m2 = message_id ?m1"
    using sender time by (simp add: normalizeMessage_id)
  have S1: "S1 = S\<lparr>messages := messages S @ [message_record H S ?m1 now]\<rparr>"
    using first by (rule insertMessage_inserted(1))
  have ex: "list_ex (\<lambda>r. message_id r = message_id ?m2) (messages S1)"
    unfolding S1 by (simp add: ids message_record_id)
  then have dup: "isDuplicate H S1 ?m2" by (rule isDuplicate_same_id)
  then have second: "insertMessage H S1 ?m2 True now = Inr (None, S1)"
    by (rule insertMessage_duplicate)
  have batch: "insertBatch H S [?m1, ?m2] now = Inr ((1, 1), S1)"
    by (simp add: insertBatch_def first second)
  from ids ex second batch show ?thesis by (simp add: normalizeMessage_id)
qed

theorem whatsapp_id_collision_witness:
  "wa_sender sample_line_1 = wa_sender sample_line_2
   \<and> wa_text sample_line_1 \<noteq> wa_text sample_line_2
   \<and> message_id (normalizeMessage sample_parse_date sample_line_2 6)
       = ''whatsapp_export_1704061800000_John_Doe''
   \<and> insertBatch (\<lambda>p. p) empty_store
         [normalizeMessage sample_parse_date sample_line_1 6,
          normalizeMessage sample_parse_date sample_line_2 6] 7
       = Inr ((1, 1), store_of (insertMessage (\<lambda>p. p) empty_store
                                 (normalizeMessage sample_parse_date sample_line_1 6) True 7))
   \<and> map content_text (messages (store_of (insertMessage (\<lambda>p. p) empty_store
                                 (normalizeMessage sample_parse_date sample_line_1 6) True 7)))
       = [Some ''Hi'']"
proof -
  have s: "wa_sender sample_line_1 = wa_sender sample_line_2" by code_simp
  have x: "wa_text sample_line_1 \<noteq> wa_text sample_line_2" by code_simp
  have t: "sample_parse_date (wa_date sample_line_1 @ '' '' @ wa_time sample_line_1)
           = sample_parse_date (wa_date sample_line_2 @ '' '' @ wa_time sample_line_2)"
    by code_simp
  have f: "insertMessage (\<lambda>p. p) empty_store (normalizeMessage sample_parse_date sample_line_1 6) True 7
           = Inr (Some 1, store_of (insertMessage (\<lambda>p. p) empty_store
                                 (normalizeMessage sample_parse_date sample_line_1 6) True 7))"
    by code_simp
  have i: "''whatsapp_export_'' @ string_of_num (sample_parse_date (wa_date sample_line_1 @ '' '' @ wa_time sample_line_1))
             @ ''_'' @ replace_ws (wa_sender sample_line_1) = ''whatsapp_export_1704061800000_John_Doe''"
    by code_simp
  have c: "map content_text (messages (store_of (insertMessage (\<lambda>p. p) empty_store
                                 (normalizeMessage sample_parse_date sample_line_1 6) True 7)))
       = [Some ''Hi'']"
    by code_simp
  from whatsapp_id_collision[OF s t f, of 6] s x i c show ?thesis by simp
qed

section \<open>Properties of the event store\<close>

lemma fill_session_event_id [simp]: "event_id (fill_session_event e) = event_id e"
  by (simp add: fill_session_event_def)

lemma fill_session_event_parent [simp]: "parent_event_id (fill_session_event e) = parent_event_id e"
  by (simp add: fill_session_event_def)










subsection \<open>Export\<close>

text \<open>
  Claim C6 at a session with a user message whose message object has its own
  \<open>timestamp\<close> key. The export writes one line per event, and the session line is as
  claimed; on the message line, \<open>Object.assign\<close> merges the stored message object over
  the reconstructed fields, so the line carries the inner timestamp (the number 1499)
  in place of the event's timestamp (the ISO text of 1500).
\<close>

theorem export_line_overwritten:
  "map (\<lambda>r. (event_id r, event_type r, ev_timestamp r)) (events sample_export_store)
     = [(''AAA'', ''session'', Some 1000), (''U1'', ''message'', Some 1500)]
   \<and> (case exportSessionAsJsonl sample_toISOString sample_export_store ''AAA'' of
         Inl _ \<Rightarrow> False
       | Inr ls \<Rightarrow>
           map (jget ''id'') ls = [Some (JStr ''AAA''), Some (JStr ''U1'')]
           \<and> map (jget ''type'') ls = [Some (JStr ''session''), Some (JStr ''message'')]
           \<and> map (jget ''parentId'') ls = [None, Some (JStr ''AAA'')]
           \<and> map (jget ''timestamp'') ls
               = [Some (JStr ''1970-01-01T00:00:01.000Z''), Some (JNum 1499)])"
  by code_simp

subsection \<open>Fan-out\<close>


lemma insert_satellites_events [simp]:
  "events (insert_satellites S e now) = events S"
  "foreign_keys (insert_satellites S e now) = foreign_keys S"
  by (simp_all add: insert_satellites_def insertThinkingBlock_def insertUsageStats_def Let_def)


















lemma truthy_or_null [simp]: "truthy (or_null a) = truthy a"
  by (simp add: or_null_def truthy_def)

lemma or_null_idem [simp]: "or_null (or_null a) = or_null a"
  by (simp add: or_null_def)



lemma event_exists_fk [simp]: "event_exists (S\<lparr>foreign_keys := b\<rparr>) x = event_exists S x"
  by (simp add: event_exists_def)








end
